theory Spec2Isabelle
  imports Main "HOL-Library.AList" "HOL-Library.Sublist"
begin

section \<open>Errors and results\<close>

text \<open>
  Every \<^verbatim>\<open>throw\<close> and every rejected promise of the TypeScript sources is a value
  \<open>Inl e\<close> of a sum type; \<open>Inr v\<close> is a normal return (a resolved promise).
  \<^item> \<open>AssertionError msg\<close>: Node's \<^verbatim>\<open>assert(value, msg)\<close> on a falsy value;
  \<^item> \<open>TypeError\<close>: a property read or a method call on \<^verbatim>\<open>undefined\<close> (the text of
    the message depends on the engine and is left out);
  \<^item> \<open>Error msg\<close>: \<^verbatim>\<open>throw new Error(msg)\<close>;
  \<^item> \<open>Failure msg\<close>: an error raised by a collaborator outside these sources
    (gRPC client, HTTP fetch, schema libraries).
\<close>

datatype error =
    AssertionError string
  | TypeError
  | Error string
  | Failure string

section \<open>JavaScript objects with string keys\<close>

text \<open>
  An object literal is the list of its own properties in insertion order; a property
  whose value may be \<^verbatim>\<open>undefined\<close> has an \<open>option\<close> value, \<open>None\<close> being
  \<^verbatim>\<open>undefined\<close>. A key that is present with value \<open>None\<close> differs from a key that
  is not in the list at all. (Keys that look like array indices, which JavaScript
  enumerates first, do not occur in these sources.)
\<close>

type_synonym 'v js_object = "(string \<times> 'v) list"

definition Object_entries :: "'v js_object \<Rightarrow> (string \<times> 'v) list" where
  "Object_entries obj = obj"

text \<open>Assigning a property overwrites it in place, or appends it.\<close>

definition set_property :: "'v js_object \<Rightarrow> string \<times> 'v \<Rightarrow> 'v js_object" where
  "set_property obj e = AList.update (fst e) (snd e) obj"

definition Object_fromEntries :: "(string \<times> 'v) list \<Rightarrow> 'v js_object" where
  "Object_fromEntries es = foldl set_property [] es"

definition Object_assign :: "'v js_object \<Rightarrow> 'v js_object \<Rightarrow> 'v js_object" where
  "Object_assign target source = foldl set_property target (Object_entries source)"

definition has_key :: "'v js_object \<Rightarrow> string \<Rightarrow> bool" where
  "has_key obj k = (k \<in> fst ` set obj)"

text \<open>A template literal \<^verbatim>\<open>${x}\<close> prints \<^verbatim>\<open>undefined\<close> as the word itself.\<close>

definition template_value :: "string option \<Rightarrow> string" where
  "template_value x = (case x of None \<Rightarrow> ''undefined'' | Some s \<Rightarrow> s)"

section \<open>The legacy proxy fetcher (apollo-fetcher.ts)\<close>

text \<open>\<^verbatim>\<open>GraphQLContext\<close>: three fields, each a string or \<^verbatim>\<open>undefined\<close>.\<close>

record GraphQLContext =
  legacyToken :: "string option"
  currency :: "string option"
  store :: "string option"

text \<open>
  \<^verbatim>\<open>opts.context\<close> is an optional bag of properties, of which the fetcher reads
  \<^verbatim>\<open>graphqlContext\<close>; the bag can be there without that property.
\<close>

record fetcher_context =
  graphqlContext :: "GraphQLContext option"

record ('doc, 'vars) IFetcherOperation =
  query :: 'doc
  variables :: "'vars option"
  operationName :: "string option"
  opts_context :: "fetcher_context option"

text \<open>\<^verbatim>\<open>filterUndefinedEntries\<close>, lines 52 to 56.\<close>

definition filterUndefinedEntries :: "'v option js_object \<Rightarrow> 'v option js_object" where
  "filterUndefinedEntries obj =
     Object_fromEntries (filter (\<lambda>entry. snd entry \<noteq> None) (Object_entries obj))"

text \<open>
  Lines 19 to 32: the headers of the outbound request. Reading \<^verbatim>\<open>legacyToken\<close> of
  an \<^verbatim>\<open>undefined\<close> \<^verbatim>\<open>graphqlContext\<close> throws.
\<close>

definition fetcher_headers ::
  "('doc, 'vars) IFetcherOperation \<Rightarrow> error + string option js_object" where
  "fetcher_headers opts =
     (let headers = [(''Content-Type'', Some ''application/json'')] in
      case opts_context opts of
        None \<Rightarrow> Inr headers
      | Some c \<Rightarrow>
          (case graphqlContext c of
             None \<Rightarrow> Inl TypeError
           | Some ctx \<Rightarrow>
               Inr (Object_assign headers
                 (filterUndefinedEntries
                   [(''Authorization'', Some (''Bearer '' @ template_value (legacyToken ctx))),
                    (''Content-Currency'', currency ctx),
                    (''Store'', store ctx)]))))"

text \<open>
  The object given to \<^verbatim>\<open>JSON.stringify\<close> and the second argument of \<^verbatim>\<open>fetch\<close>.
  \<^verbatim>\<open>print\<close> (of the graphql library) and \<^verbatim>\<open>JSON.stringify\<close> are parameters.
\<close>

record 'vars request_body =
  body_query :: string
  body_variables :: "'vars option"
  body_operationName :: "string option"

record fetch_init =
  init_method :: string
  init_headers :: "string option js_object"
  init_body :: string

definition fetcher_init ::
  "('doc \<Rightarrow> string) \<Rightarrow> ('vars request_body \<Rightarrow> string) \<Rightarrow>
   ('doc, 'vars) IFetcherOperation \<Rightarrow> error + fetch_init" where
  "fetcher_init print stringify opts =
     (case fetcher_headers opts of
        Inl e \<Rightarrow> Inl e
      | Inr headers \<Rightarrow>
          Inr \<lparr>init_method = ''POST'',
               init_headers = headers,
               init_body = stringify
                 \<lparr>body_query = print (query opts),
                  body_variables = variables opts,
                  body_operationName = operationName opts\<rparr>\<rparr>)"

text \<open>
  The response of \<^verbatim>\<open>fetch\<close> is read through its \<^verbatim>\<open>json()\<close> method only, which
  yields the decoded body or fails.
\<close>

record 'json fetch_response =
  json :: "error + 'json"

definition createMonolithApolloFetcher ::
  "('doc \<Rightarrow> string) \<Rightarrow> ('vars request_body \<Rightarrow> string) \<Rightarrow> string \<Rightarrow>
   (string \<Rightarrow> fetch_init \<Rightarrow> error + 'json fetch_response) \<Rightarrow>
   ('doc, 'vars) IFetcherOperation \<Rightarrow> error + 'json" where
  "createMonolithApolloFetcher print stringify monolithGraphQLUrl fetch opts =
     (case fetcher_init print stringify opts of
        Inl e \<Rightarrow> Inl e
      | Inr init \<Rightarrow>
          (case fetch monolithGraphQLUrl init of
             Inl e \<Rightarrow> Inl e
           | Inr result \<Rightarrow> json result))"

section \<open>The catalog extension (product lookup)\<close>

text \<open>
  The protobuf messages of the catalog service, as the resolver uses them: a request
  with its two setters, a response with its item list, an item with its two getters.
  A new message has an empty list and an empty string.
\<close>

record ProductsGetRequest =
  idsList :: "string list"
  storeCode :: string

definition new_ProductsGetRequest :: ProductsGetRequest where
  "new_ProductsGetRequest = \<lparr>idsList = [], storeCode = []\<rparr>"

definition setIdsList :: "string list \<Rightarrow> ProductsGetRequest \<Rightarrow> ProductsGetRequest" where
  "setIdsList ids msg = msg\<lparr>idsList := ids\<rparr>"

definition setStore :: "string \<Rightarrow> ProductsGetRequest \<Rightarrow> ProductsGetRequest" where
  "setStore s msg = msg\<lparr>storeCode := s\<rparr>"

record ProductItem =
  getSku :: string
  getName :: string

record ProductsGetResponse =
  getItemsList :: "ProductItem list"

text \<open>The GraphQL type \<^verbatim>\<open>CatalogServiceProduct\<close> and the arguments of the field.\<close>

record CatalogServiceProduct =
  product_id :: string
  product_name :: string

record productByID_args =
  args_id :: string

text \<open>Lines 35 to 37: the message of the lookup.\<close>

definition productByID_message :: "productByID_args \<Rightarrow> ProductsGetRequest" where
  "productByID_message args =
     (let msg = new_ProductsGetRequest;
          msg = setIdsList [args_id args] msg;
          msg = setStore ''default'' msg
      in msg)"

text \<open>
  Lines 40 to 47, on the value the call resolved with (\<open>None\<close>: \<^verbatim>\<open>undefined\<close>).
  Destructuring the first element of an empty list gives \<^verbatim>\<open>undefined\<close>, and the
  call of \<^verbatim>\<open>getSku\<close> on it throws.
\<close>

definition productByID_result ::
  "ProductsGetResponse option \<Rightarrow> error + CatalogServiceProduct" where
  "productByID_result res =
     (case res of
        None \<Rightarrow> Inl (AssertionError ''Did not receive a response from Catalog gRPC API'')
      | Some r \<Rightarrow>
          (case getItemsList r of
             [] \<Rightarrow> Inl TypeError
           | product # _ \<Rightarrow>
               Inr \<lparr>product_id = getSku product, product_name = getName product\<rparr>))"

text \<open>
  The resolver. \<open>getProducts\<close> is the promisified client call: it rejects (\<open>Inl\<close>) or
  resolves with a response or with nothing.
\<close>

definition productByID ::
  "(ProductsGetRequest \<Rightarrow> error + ProductsGetResponse option) \<Rightarrow> 'root \<Rightarrow>
   productByID_args \<Rightarrow> error + CatalogServiceProduct" where
  "productByID getProducts root args =
     (let msg = productByID_message args in
      case getProducts msg of
        Inl e \<Rightarrow> Inl e
      | Inr res \<Rightarrow> productByID_result res)"

section \<open>The gateway entrypoint\<close>

text \<open>
  The configuration \<^verbatim>\<open>main\<close> reads through \<^verbatim>\<open>hasVar\<close> and \<^verbatim>\<open>readVar\<close> of the
  env module: a variable that is not set is \<open>None\<close>, one that is set holds its
  parsed value.
\<close>

record config =
  IO_PACKAGES :: "string list option"
  LEGACY_GRAPHQL_URL :: "string option"

text \<open>
  A schema, as far as composition goes: the fields it defines, each with the resolver
  that serves it.
\<close>

type_synonym 'r schema = "string \<rightharpoonup> 'r"

text \<open>
  Modelled from the spec: \<^verbatim>\<open>mergeSchemas\<close> is a function of the graphql-tools
  library, which is not part of these sources. The spec's data model says that when two
  sources define the same field the source later in the order wins, and the source says
  the same of the list it passes (line 26: schemas are last-in-wins).
\<close>

definition mergeSchemas :: "'r schema list \<Rightarrow> 'r schema" where
  "mergeSchemas schemas = foldl map_add Map.empty schemas"

text \<open>
  What \<^verbatim>\<open>main\<close> calls outside these sources. \<^verbatim>\<open>collectLocalExtensions\<close> and
  \<^verbatim>\<open>prepareRemoteExtensionSchemas\<close> only chain calls of package discovery and of
  the schema library, so their outcome is taken as given; \<open>serve\<close> is the rest of
  \<^verbatim>\<open>main\<close> after composition (registering the schema and listening).
\<close>

record ('r, 'raw, 'f, 'srv) collaborators =
  collectLocalExtensions :: "error + 'r schema"
  prepareRemoteExtensionSchemas :: "string list \<Rightarrow> error + 'r schema"
  createMonolithFetcher :: "string \<Rightarrow> 'f"
  introspectSchema :: "'f \<Rightarrow> error + 'raw"
  makeRemoteExecutableSchema :: "'raw \<Rightarrow> 'f \<Rightarrow> 'r schema"
  serve :: "'r schema \<Rightarrow> error + 'srv"

text \<open>Lines 153 to 157: the message of the error thrown when introspection fails.\<close>

definition introspection_failure_message :: "string \<Rightarrow> string" where
  \<open>introspection_failure_message legacyURL =
     ''Failed introspecting remote Magento schema at "'' @ legacyURL @ ''". '' @
     ''Make sure that the LEGACY_GRAPHQL_URL variable has the '' @
     ''correct value for your Magento instance''\<close>

text \<open>\<^verbatim>\<open>prepareFallbackSchema\<close>, lines 142 to 164.\<close>

definition prepareFallbackSchema ::
  "('r, 'raw, 'f, 'srv) collaborators \<Rightarrow> string \<Rightarrow> error + 'r schema" where
  "prepareFallbackSchema w legacyURL =
     (let fetcher = createMonolithFetcher w legacyURL in
      case introspectSchema w fetcher of
        Inl err \<Rightarrow> Inl (Error (introspection_failure_message legacyURL))
      | Inr rawMonolithSchema \<Rightarrow> Inr (makeRemoteExecutableSchema w rawMonolithSchema fetcher))"

text \<open>Lines 24 to 28: the list starts with the local schema.\<close>

definition schemas_local :: "('r, 'raw, 'f, 'srv) collaborators \<Rightarrow> error + 'r schema list" where
  "schemas_local w =
     (case collectLocalExtensions w of
        Inl e \<Rightarrow> Inl e
      | Inr executableSchema \<Rightarrow> Inr [executableSchema])"

text \<open>Lines 29 to 36: the remote extensions are pushed when \<^verbatim>\<open>IO_PACKAGES\<close> is set.\<close>

definition push_remote ::
  "('r, 'raw, 'f, 'srv) collaborators \<Rightarrow> config \<Rightarrow> 'r schema list \<Rightarrow> error + 'r schema list" where
  "push_remote w cfg schemas =
     (case IO_PACKAGES cfg of
        None \<Rightarrow> Inr schemas
      | Some packages \<Rightarrow>
          (case prepareRemoteExtensionSchemas w packages of
             Inl e \<Rightarrow> Inl e
           | Inr ioSchema \<Rightarrow> Inr (schemas @ [ioSchema])))"

text \<open>Lines 38 to 48: the legacy schema is pushed when \<^verbatim>\<open>LEGACY_GRAPHQL_URL\<close> is set.\<close>

definition push_legacy ::
  "('r, 'raw, 'f, 'srv) collaborators \<Rightarrow> config \<Rightarrow> 'r schema list \<Rightarrow> error + 'r schema list" where
  "push_legacy w cfg schemas =
     (case LEGACY_GRAPHQL_URL cfg of
        None \<Rightarrow> Inr schemas
      | Some legacyURL \<Rightarrow>
          (case prepareFallbackSchema w legacyURL of
             Inl e \<Rightarrow> Inl e
           | Inr fallback \<Rightarrow> Inr (schemas @ [fallback])))"

definition main_schemas ::
  "('r, 'raw, 'f, 'srv) collaborators \<Rightarrow> config \<Rightarrow> error + 'r schema list" where
  "main_schemas w cfg =
     (case schemas_local w of
        Inl e \<Rightarrow> Inl e
      | Inr schemas \<Rightarrow>
          (case push_remote w cfg schemas of
             Inl e \<Rightarrow> Inl e
           | Inr schemas \<Rightarrow> push_legacy w cfg schemas))"

text \<open>\<^verbatim>\<open>main\<close>: the composed schema is handed to the server.\<close>

definition main :: "('r, 'raw, 'f, 'srv) collaborators \<Rightarrow> config \<Rightarrow> error + 'srv" where
  "main w cfg =
     (case main_schemas w cfg of
        Inl e \<Rightarrow> Inl e
      | Inr schemas \<Rightarrow> serve w (mergeSchemas schemas))"

text \<open>
  Lines 166 to 169: a rejection of \<^verbatim>\<open>main\<close> is printed and the process exits with
  code 1.
\<close>

datatype 'srv process = Exit nat error | Running 'srv

definition start :: "('r, 'raw, 'f, 'srv) collaborators \<Rightarrow> config \<Rightarrow> 'srv process" where
  "start w cfg = (case main w cfg of Inl err \<Rightarrow> Exit 1 err | Inr srv \<Rightarrow> Running srv)"

text \<open>The fields each kind of source contributes; a source that is not there has none.\<close>

definition local_fields :: "('r, 'raw, 'f, 'srv) collaborators \<Rightarrow> 'r schema" where
  "local_fields w = (case collectLocalExtensions w of Inl e \<Rightarrow> Map.empty | Inr s \<Rightarrow> s)"

definition remote_fields :: "('r, 'raw, 'f, 'srv) collaborators \<Rightarrow> config \<Rightarrow> 'r schema" where
  "remote_fields w cfg =
     (case IO_PACKAGES cfg of
        None \<Rightarrow> Map.empty
      | Some packages \<Rightarrow>
          (case prepareRemoteExtensionSchemas w packages of
             Inl e \<Rightarrow> Map.empty
           | Inr s \<Rightarrow> s))"

definition legacy_fields :: "('r, 'raw, 'f, 'srv) collaborators \<Rightarrow> config \<Rightarrow> 'r schema" where
  "legacy_fields w cfg =
     (case LEGACY_GRAPHQL_URL cfg of
        None \<Rightarrow> Map.empty
      | Some legacyURL \<Rightarrow>
          (case prepareFallbackSchema w legacyURL of
             Inl e \<Rightarrow> Map.empty
           | Inr s \<Rightarrow> s))"

text \<open>
  Lines 61 to 65: the context of a request, from its headers (a header that was not
  sent reads as \<^verbatim>\<open>undefined\<close>).
\<close>

record FastifyRequest =
  headers :: "string \<rightharpoonup> string"

definition main_context :: "FastifyRequest \<Rightarrow> GraphQLContext" where
  "main_context req =
     \<lparr>legacyToken = headers req ''authorization'',
      currency = headers req ''Content-Currency'',
      store = headers req ''Store''\<rparr>"

text \<open>
  A gateway to try the composition on: three sources that all define
  \<^verbatim>\<open>Query.products\<close>, two of them \<^verbatim>\<open>Query.cart\<close>, one \<^verbatim>\<open>Query.version\<close>.
\<close>

definition example_gateway :: "(string, unit, string, string schema) collaborators" where
  "example_gateway =
     \<lparr>collectLocalExtensions =
        Inr [''Query.products'' \<mapsto> ''local'', ''Query.cart'' \<mapsto> ''local'',
             ''Query.version'' \<mapsto> ''local''],
      prepareRemoteExtensionSchemas =
        (\<lambda>packages. Inr [''Query.products'' \<mapsto> ''remote'', ''Query.cart'' \<mapsto> ''remote'']),
      createMonolithFetcher = (\<lambda>url. url),
      introspectSchema = (\<lambda>fetcher. Inr ()),
      makeRemoteExecutableSchema = (\<lambda>raw fetcher. [''Query.products'' \<mapsto> ''legacy'']),
      serve = (\<lambda>schema. Inr schema)\<rparr>"

definition example_config :: config where
  "example_config =
     \<lparr>IO_PACKAGES = Some [''acme/orders''],
      LEGACY_GRAPHQL_URL = Some ''http://legacy.test/graphql''\<rparr>"

section \<open>Properties of the fetcher's headers\<close>

lemma fetcher_headers_no_context:
  "opts_context opts = None \<Longrightarrow>
   fetcher_headers opts = Inr [(''Content-Type'', Some ''application/json'')]"
  by (simp add: fetcher_headers_def)

lemma fetcher_headers_with_context:
  "opts_context opts = Some c \<Longrightarrow> graphqlContext c = Some ctx \<Longrightarrow>
   fetcher_headers opts =
     Inr ((''Content-Type'', Some ''application/json'') #
          (''Authorization'', Some (''Bearer '' @ template_value (legacyToken ctx))) #
          (case currency ctx of None \<Rightarrow> [] | Some v \<Rightarrow> [(''Content-Currency'', Some v)]) @
          (case store ctx of None \<Rightarrow> [] | Some v \<Rightarrow> [(''Store'', Some v)]))"
  by (simp add: fetcher_headers_def filterUndefinedEntries_def Object_assign_def
      Object_fromEntries_def Object_entries_def set_property_def split: option.splits)

lemma has_key_simps:
  "has_key [] k = False"
  "has_key (e # es) k = (fst e = k \<or> has_key es k)"
  by (auto simp: has_key_def)

text \<open>
  C10. When the operation carries no context object at all, the outbound request has
  exactly one header, \<^verbatim>\<open>Content-Type: application/json\<close>: the headers built are that
  single entry, and \<^verbatim>\<open>fetch\<close> is called with them (method POST, the stringified
  operation as body).
\<close>

theorem fetcher_no_context_content_type_only:
  "opts_context opts = None \<Longrightarrow>
   fetcher_headers opts = Inr [(''Content-Type'', Some ''application/json'')] \<and>
   createMonolithApolloFetcher print stringify url fetch opts =
     (case fetch url
        \<lparr>init_method = ''POST'',
         init_headers = [(''Content-Type'', Some ''application/json'')],
         init_body = stringify
           \<lparr>body_query = print (query opts),
            body_variables = variables opts,
            body_operationName = operationName opts\<rparr>\<rparr> of
        Inl e \<Rightarrow> Inl e
      | Inr result \<Rightarrow> json result)"
  by (simp add: fetcher_headers_no_context createMonolithApolloFetcher_def fetcher_init_def)

text \<open>
  The same at a concrete operation: a \<^verbatim>\<open>fetch\<close> that answers with the number of
  headers it was given answers 1.
\<close>

theorem fetcher_no_context_content_type_only_witness:
  "opts_context \<lparr>query = (), variables = (None :: unit option), operationName = None,
      opts_context = None\<rparr> = None \<and>
   createMonolithApolloFetcher (\<lambda>d. ''{ products }'') body_query ''http://legacy/graphql''
     (\<lambda>u i. Inr \<lparr>json = Inr (length (init_headers i))\<rparr>)
     \<lparr>query = (), variables = (None :: unit option), operationName = None,
      opts_context = None\<rparr> = Inr 1"
  using fetcher_no_context_content_type_only
    [of "\<lparr>query = (), variables = (None :: unit option), operationName = None,
          opts_context = None\<rparr>"
        "\<lambda>d. ''{ products }''" body_query "''http://legacy/graphql''"
        "\<lambda>u i. Inr \<lparr>json = Inr (length (init_headers i))\<rparr>"]
  by simp

text \<open>
  C4. For a Request Context whose currency is absent, the outbound request has no
  \<^verbatim>\<open>Content-Currency\<close> key at all; likewise an absent store gives no \<^verbatim>\<open>Store\<close>
  key. Every value that is attached is a string, never \<^verbatim>\<open>undefined\<close>. The request
  is the one \<^verbatim>\<open>fetch\<close> is called with.
\<close>

theorem fetcher_omits_absent_currency_and_store:
  "opts_context opts = Some c \<Longrightarrow> graphqlContext c = Some ctx \<Longrightarrow>
   \<exists>init. fetcher_init print stringify opts = Inr init \<and>
     createMonolithApolloFetcher print stringify url fetch opts =
       (case fetch url init of Inl e \<Rightarrow> Inl e | Inr result \<Rightarrow> json result) \<and>
     (currency ctx = None \<longrightarrow> \<not> has_key (init_headers init) ''Content-Currency'') \<and>
     (store ctx = None \<longrightarrow> \<not> has_key (init_headers init) ''Store'') \<and>
     None \<notin> snd ` set (init_headers init)"
  by (auto simp: fetcher_headers_with_context createMonolithApolloFetcher_def fetcher_init_def
      has_key_simps split: option.splits)

theorem fetcher_omits_absent_currency_and_store_witness:
  "\<exists>init. fetcher_init (\<lambda>d. ''{ products }'') body_query
       \<lparr>query = (), variables = (None :: unit option), operationName = None,
        opts_context = Some \<lparr>graphqlContext = Some
          \<lparr>legacyToken = Some ''abc'', currency = None, store = None\<rparr>\<rparr>\<rparr> = Inr init \<and>
     \<not> has_key (init_headers init) ''Content-Currency'' \<and>
     \<not> has_key (init_headers init) ''Store''"
  using fetcher_omits_absent_currency_and_store
    [of "\<lparr>query = (), variables = (None :: unit option), operationName = None,
          opts_context = Some \<lparr>graphqlContext = Some
            \<lparr>legacyToken = Some ''abc'', currency = None, store = None\<rparr>\<rparr>\<rparr>"
        "\<lparr>graphqlContext = Some \<lparr>legacyToken = Some ''abc'', currency = None, store = None\<rparr>\<rparr>"
        "\<lparr>legacyToken = Some ''abc'', currency = None, store = None\<rparr>"
        "\<lambda>d. ''{ products }''" body_query "''http://legacy/graphql''"
        "\<lambda>u i. Inr \<lparr>json = Inr (length (init_headers i))\<rparr>"]
  by auto

text \<open>
  C2 (not met by the code). The claim: the outbound request carries an
  \<^verbatim>\<open>Authorization\<close> header if and only if the context's token is present. The code
  builds the value with a template literal before filtering, so the value is never
  \<^verbatim>\<open>undefined\<close> and the filter keeps it: for a context without a token the request
  carries \<^verbatim>\<open>Authorization: Bearer undefined\<close>.
\<close>

theorem fetcher_absent_token_sends_bearer_undefined:
  "fetcher_headers
     \<lparr>query = (), variables = (None :: unit option), operationName = None,
      opts_context = Some \<lparr>graphqlContext = Some
        \<lparr>legacyToken = None, currency = None, store = None\<rparr>\<rparr>\<rparr> =
   Inr [(''Content-Type'', Some ''application/json''),
        (''Authorization'', Some ''Bearer undefined'')]"
  by (simp add: fetcher_headers_def filterUndefinedEntries_def Object_assign_def
      Object_fromEntries_def Object_entries_def set_property_def template_value_def)

section \<open>Properties of the product lookup\<close>

text \<open>
  C5. For every identifier, the request sent to the catalog backend has the identifier
  as the only element of its list and the store \<^verbatim>\<open>default\<close>: that is the message
  built, and the resolver's outcome is determined by what the backend answers to it.
\<close>

theorem productByID_request_single_id_default_store:
  "productByID_message args = \<lparr>idsList = [args_id args], storeCode = ''default''\<rparr> \<and>
   productByID getProducts root args =
     (case getProducts \<lparr>idsList = [args_id args], storeCode = ''default''\<rparr> of
        Inl e \<Rightarrow> Inl e
      | Inr res \<Rightarrow> productByID_result res)"
  by (simp add: productByID_def productByID_message_def new_ProductsGetRequest_def
      setIdsList_def setStore_def)

text \<open>
  C7. For every response with at least one item, the result is the projection of the
  first item, its SKU as the identifier and its name; the items after it have no
  effect.
\<close>

theorem productByID_projects_first_item:
  "productByID (\<lambda>msg. Inr (Some \<lparr>getItemsList = item # others\<rparr>)) root args =
     Inr \<lparr>product_id = getSku item, product_name = getName item\<rparr>"
  by (simp add: productByID_def productByID_result_def)

text \<open>
  C6. When no response object is received from the catalog backend, the resolver
  fails with an error that is the value of its result, a field-level error: the
  assertion error of line 40 when the call resolves with nothing, the call's own
  error when the call is rejected; so in every outcome other than a received response
  the resolver yields an error and no product. Conversely, when a response object is
  received, the resolver does not fail with the assertion error of line 40.
\<close>

theorem productByID_missing_response:
  "(getProducts (productByID_message args) = Inr None \<longrightarrow>
      productByID getProducts root args =
        Inl (AssertionError ''Did not receive a response from Catalog gRPC API'')) \<and>
   (getProducts (productByID_message args) = Inl e \<longrightarrow>
      productByID getProducts root args = Inl e) \<and>
   ((\<forall>r'. getProducts (productByID_message args) \<noteq> Inr (Some r')) \<longrightarrow>
      (\<exists>e'. productByID getProducts root args = Inl e')) \<and>
   (getProducts (productByID_message args) = Inr (Some r) \<longrightarrow>
      productByID getProducts root args \<noteq>
        Inl (AssertionError ''Did not receive a response from Catalog gRPC API''))"
proof (cases "getProducts (productByID_message args)")
  case (Inl err)
  then show ?thesis
    by (simp add: productByID_def)
next
  case (Inr res)
  show ?thesis
  proof (cases res)
    case None
    with Inr show ?thesis
      by (simp add: productByID_def productByID_result_def)
  next
    case (Some resp)
    with Inr show ?thesis
      by (simp add: productByID_def productByID_result_def split: list.splits)
  qed
qed

text \<open>
  At three backends: one that resolves with nothing, one that rejects the call, one
  that answers with a product.
\<close>

theorem productByID_missing_response_witness:
  "productByID (\<lambda>msg. Inr None) () \<lparr>args_id = ''123''\<rparr> =
     Inl (AssertionError ''Did not receive a response from Catalog gRPC API'') \<and>
   productByID (\<lambda>msg. Inl (Failure ''UNAVAILABLE'')) () \<lparr>args_id = ''123''\<rparr> =
     Inl (Failure ''UNAVAILABLE'') \<and>
   productByID (\<lambda>msg. Inr (Some \<lparr>getItemsList = [\<lparr>getSku = ''123'', getName = ''Mug''\<rparr>]\<rparr>))
       () \<lparr>args_id = ''123''\<rparr> \<noteq>
     Inl (AssertionError ''Did not receive a response from Catalog gRPC API'')"
  using productByID_missing_response
      [where getProducts = "\<lambda>msg. Inr None" and args = "\<lparr>args_id = ''123''\<rparr>"
         and root = "()" and e = "Failure ''UNAVAILABLE''" and r = "\<lparr>getItemsList = []\<rparr>"]
    productByID_missing_response
      [where getProducts = "\<lambda>msg. Inl (Failure ''UNAVAILABLE'')"
         and args = "\<lparr>args_id = ''123''\<rparr>"
         and root = "()" and e = "Failure ''UNAVAILABLE''" and r = "\<lparr>getItemsList = []\<rparr>"]
    productByID_missing_response
      [where getProducts =
           "\<lambda>msg. Inr (Some \<lparr>getItemsList = [\<lparr>getSku = ''123'', getName = ''Mug''\<rparr>]\<rparr>)"
         and args = "\<lparr>args_id = ''123''\<rparr>" and root = "()"
         and e = "Failure ''UNAVAILABLE''"
         and r = "\<lparr>getItemsList = [\<lparr>getSku = ''123'', getName = ''Mug''\<rparr>]\<rparr>"]
  by simp

text \<open>
  C3 (not met by the code). The claim: for a response whose item list is empty the
  resolver yields a null result or a defined not-found error. The code guards only
  against a missing response, then reads the first item unconditionally: on an empty
  list the resolver throws a TypeError.
\<close>

theorem productByID_empty_items_type_error:
  "productByID (\<lambda>msg. Inr (Some \<lparr>getItemsList = []\<rparr>)) () \<lparr>args_id = ''123''\<rparr> =
     Inl TypeError"
  by (simp add: productByID_def productByID_result_def)

section \<open>Properties of the gateway entrypoint\<close>

lemma mergeSchemas_snoc:
  "mergeSchemas (ss @ [s]) f = (case s f of Some r \<Rightarrow> Some r | None \<Rightarrow> mergeSchemas ss f)"
  by (simp add: mergeSchemas_def map_add_def split: option.splits)

lemma mergeSchemas_single: "mergeSchemas [s] = s"
  by (simp add: mergeSchemas_def)

lemma push_remote_fields:
  "push_remote w cfg ss = Inr ss' \<Longrightarrow>
   mergeSchemas ss' f =
     (case remote_fields w cfg f of Some r \<Rightarrow> Some r | None \<Rightarrow> mergeSchemas ss f)"
  by (auto simp: push_remote_def remote_fields_def mergeSchemas_snoc
      split: option.splits sum.splits)

lemma push_legacy_fields:
  "push_legacy w cfg ss = Inr ss' \<Longrightarrow>
   mergeSchemas ss' f =
     (case legacy_fields w cfg f of Some r \<Rightarrow> Some r | None \<Rightarrow> mergeSchemas ss f)"
  by (auto simp: push_legacy_def legacy_fields_def mergeSchemas_snoc
      split: option.splits sum.splits)

lemma schemas_local_fields:
  "schemas_local w = Inr ss \<Longrightarrow> mergeSchemas ss = local_fields w"
  by (auto simp: schemas_local_def local_fields_def mergeSchemas_single split: sum.splits)

text \<open>
  C1. Composition precedence. Whenever the sources are collected without error, the
  schema handed to the server is the merge of the list \<^verbatim>\<open>main\<close> built, and every
  field resolves through the latest source that defines it in the order local,
  remote-function, legacy: the legacy source's resolver when the legacy source defines
  the field (it is never overridden), else the remote-function source's resolver when
  that source defines it, else the local one.
\<close>

theorem main_precedence:
  "main_schemas w cfg = Inr schemas \<Longrightarrow>
   main w cfg = serve w (mergeSchemas schemas) \<and>
   mergeSchemas schemas f =
     (case legacy_fields w cfg f of
        Some r \<Rightarrow> Some r
      | None \<Rightarrow>
          (case remote_fields w cfg f of
             Some r \<Rightarrow> Some r
           | None \<Rightarrow> local_fields w f))"
proof -
  assume h: "main_schemas w cfg = Inr schemas"
  then obtain s0 s1 where l: "schemas_local w = Inr s0"
    and r: "push_remote w cfg s0 = Inr s1"
    and g: "push_legacy w cfg s1 = Inr schemas"
    by (auto simp: main_schemas_def split: sum.splits)
  have "main w cfg = serve w (mergeSchemas schemas)"
    using h by (simp add: main_def)
  moreover have "mergeSchemas schemas f =
     (case legacy_fields w cfg f of
        Some r \<Rightarrow> Some r
      | None \<Rightarrow>
          (case remote_fields w cfg f of
             Some r \<Rightarrow> Some r
           | None \<Rightarrow> local_fields w f))"
    by (simp add: push_legacy_fields [OF g] push_remote_fields [OF r] schemas_local_fields [OF l]
        split: option.splits)
  ultimately show ?thesis by simp
qed

lemma example_schemas:
  "main_schemas example_gateway example_config =
     Inr [[''Query.products'' \<mapsto> ''local'', ''Query.cart'' \<mapsto> ''local'',
           ''Query.version'' \<mapsto> ''local''],
          [''Query.products'' \<mapsto> ''remote'', ''Query.cart'' \<mapsto> ''remote''],
          [''Query.products'' \<mapsto> ''legacy'']]"
  by (simp add: main_schemas_def schemas_local_def push_remote_def push_legacy_def
      prepareFallbackSchema_def example_gateway_def example_config_def)

text \<open>
  On the example gateway: \<^verbatim>\<open>Query.products\<close>, defined by all three sources,
  resolves through the legacy source; \<^verbatim>\<open>Query.cart\<close>, defined by the local and the
  remote source, through the remote one.
\<close>

theorem main_precedence_witness:
  "\<exists>schemas. main_schemas example_gateway example_config = Inr schemas \<and>
     mergeSchemas schemas ''Query.products'' = Some ''legacy'' \<and>
     mergeSchemas schemas ''Query.cart'' = Some ''remote'' \<and>
     mergeSchemas schemas ''Query.version'' = Some ''local''"
proof -
  note defs = legacy_fields_def remote_fields_def local_fields_def prepareFallbackSchema_def
    example_gateway_def example_config_def
  have "mergeSchemas
      [[''Query.products'' \<mapsto> ''local'', ''Query.cart'' \<mapsto> ''local'',
        ''Query.version'' \<mapsto> ''local''],
       [''Query.products'' \<mapsto> ''remote'', ''Query.cart'' \<mapsto> ''remote''],
       [''Query.products'' \<mapsto> ''legacy'']] ''Query.products'' = Some ''legacy''"
    using main_precedence [OF example_schemas, of "''Query.products''"] by (simp add: defs)
  moreover have "mergeSchemas
      [[''Query.products'' \<mapsto> ''local'', ''Query.cart'' \<mapsto> ''local'',
        ''Query.version'' \<mapsto> ''local''],
       [''Query.products'' \<mapsto> ''remote'', ''Query.cart'' \<mapsto> ''remote''],
       [''Query.products'' \<mapsto> ''legacy'']] ''Query.cart'' = Some ''remote''"
    using main_precedence [OF example_schemas, of "''Query.cart''"] by (simp add: defs)
  moreover have "mergeSchemas
      [[''Query.products'' \<mapsto> ''local'', ''Query.cart'' \<mapsto> ''local'',
        ''Query.version'' \<mapsto> ''local''],
       [''Query.products'' \<mapsto> ''remote'', ''Query.cart'' \<mapsto> ''remote''],
       [''Query.products'' \<mapsto> ''legacy'']] ''Query.version'' = Some ''local''"
    using main_precedence [OF example_schemas, of "''Query.version''"] by (simp add: defs)
  ultimately show ?thesis
    using example_schemas by simp
qed

text \<open>
  C9. When startup reaches the legacy source and the introspection call against the
  configured endpoint fails, \<^verbatim>\<open>main\<close> is rejected and the process exits with code 1
  and an error whose message contains the configured URL; the failure is not ignored.
\<close>

theorem introspection_failure_aborts_startup:
  "schemas_local w = Inr s0 \<Longrightarrow> push_remote w cfg s0 = Inr s1 \<Longrightarrow>
   LEGACY_GRAPHQL_URL cfg = Some legacyURL \<Longrightarrow>
   introspectSchema w (createMonolithFetcher w legacyURL) = Inl err \<Longrightarrow>
   start w cfg = Exit 1 (Error (introspection_failure_message legacyURL)) \<and>
   sublist legacyURL (introspection_failure_message legacyURL)"
proof -
  assume l: "schemas_local w = Inr s0" and r: "push_remote w cfg s0 = Inr s1"
    and u: "LEGACY_GRAPHQL_URL cfg = Some legacyURL"
    and i: "introspectSchema w (createMonolithFetcher w legacyURL) = Inl err"
  have "prepareFallbackSchema w legacyURL = Inl (Error (introspection_failure_message legacyURL))"
    using i by (simp add: prepareFallbackSchema_def)
  then have "main_schemas w cfg = Inl (Error (introspection_failure_message legacyURL))"
    using l r u by (simp add: main_schemas_def push_legacy_def)
  then have "start w cfg = Exit 1 (Error (introspection_failure_message legacyURL))"
    by (simp add: start_def main_def)
  moreover have "sublist legacyURL (introspection_failure_message legacyURL)"
    unfolding introspection_failure_message_def by (rule sublist_appendI)
  ultimately show ?thesis by simp
qed

theorem introspection_failure_aborts_startup_witness:
  "start (example_gateway\<lparr>introspectSchema := (\<lambda>fetcher. Inl (Failure ''ECONNREFUSED''))\<rparr>)
     example_config =
     Exit 1 (Error (introspection_failure_message ''http://legacy.test/graphql'')) \<and>
   sublist ''http://legacy.test/graphql''
     (introspection_failure_message ''http://legacy.test/graphql'')"
  using introspection_failure_aborts_startup
    [of "example_gateway\<lparr>introspectSchema := (\<lambda>fetcher. Inl (Failure ''ECONNREFUSED''))\<rparr>"
        "[[''Query.products'' \<mapsto> ''local'', ''Query.cart'' \<mapsto> ''local'',
           ''Query.version'' \<mapsto> ''local'']]"
        example_config
        "[[''Query.products'' \<mapsto> ''local'', ''Query.cart'' \<mapsto> ''local'',
           ''Query.version'' \<mapsto> ''local''],
          [''Query.products'' \<mapsto> ''remote'', ''Query.cart'' \<mapsto> ''remote'']]"
        "''http://legacy.test/graphql''" "Failure ''ECONNREFUSED''"]
  by (simp add: schemas_local_def push_remote_def example_gateway_def example_config_def)

text \<open>
  C8. Context extraction is a function of the request's headers alone: with only an
  \<^verbatim>\<open>authorization\<close> header the token is present and currency and store are absent;
  with no header all three are absent; in general each field is the lookup of its
  header, so a missing header gives an absent field and never an error.
\<close>

theorem context_extraction:
  "main_context \<lparr>headers = [''authorization'' \<mapsto> t]\<rparr> =
     \<lparr>legacyToken = Some t, currency = None, store = None\<rparr> \<and>
   main_context \<lparr>headers = Map.empty\<rparr> =
     \<lparr>legacyToken = None, currency = None, store = None\<rparr> \<and>
   legacyToken (main_context req) = headers req ''authorization'' \<and>
   currency (main_context req) = headers req ''Content-Currency'' \<and>
   store (main_context req) = headers req ''Store''"
  by (simp add: main_context_def)

end
